theory Spec2Isabelle
  imports Main "HOL-Library.Char_ord" "HOL-Library.List_Lexorder"
begin

section \<open>Python values: errors, dictionaries, strings\<close>

text \<open>
  Every exception the modelled code can raise is a value of \<open>error\<close>; a function that can
  raise returns \<open>error + 'a\<close> with \<open>Inl\<close> for the raised exception.
  \<open>HTTPError status message\<close> is tornado's \<open>web.HTTPError\<close>.
\<close>

datatype error =
    HTTPError nat string
  | KeyError string
  | IndexError
  | AttributeError
  | ValueError
  | TypeError
  | ValidationError
  | HTTPClientError nat

text \<open>
  A Python \<open>dict\<close> with string keys is an association list; \<open>map_of\<close> is the lookup, so
  the first binding of a key is the one that counts.
\<close>

type_synonym 'a dict = "(string \<times> 'a) list"

definition dict_get :: "'a dict \<Rightarrow> string \<Rightarrow> 'a option" where
  "dict_get d k = map_of d k"

definition getitem :: "'a dict \<Rightarrow> string \<Rightarrow> error + 'a" where
  "getitem d k = (case map_of d k of None \<Rightarrow> Inl (KeyError k) | Some v \<Rightarrow> Inr v)"

definition dict_keys :: "'a dict \<Rightarrow> string list" where
  "dict_keys d = remdups (map fst d)"

definition has_key :: "'a dict \<Rightarrow> string \<Rightarrow> bool" where
  "has_key d k = (map_of d k \<noteq> None)"

text \<open>Truthiness of the result of \<open>dict.get\<close> on string values: \<open>None\<close> and \<open>""\<close> are falsy.\<close>

definition truthy :: "string option \<Rightarrow> bool" where
  "truthy v = (case v of None \<Rightarrow> False | Some s \<Rightarrow> s \<noteq> [])"

text \<open>\<open>s.split(sep, 1)\<close>: one piece when \<open>sep\<close> does not occur, two otherwise.\<close>

definition split1 :: "char \<Rightarrow> string \<Rightarrow> string list" where
  "split1 sep s =
     (if sep \<in> set s
      then [takeWhile (\<lambda>c. c \<noteq> sep) s, tl (dropWhile (\<lambda>c. c \<noteq> sep) s)]
      else [s])"

text \<open>\<open>s.split(sep)\<close> with no limit.\<close>

fun split_acc :: "char \<Rightarrow> string \<Rightarrow> string \<Rightarrow> string list" where
  "split_acc sep acc [] = [rev acc]"
| "split_acc sep acc (c # cs) =
     (if c = sep then rev acc # split_acc sep [] cs else split_acc sep (c # acc) cs)"

definition split_all :: "char \<Rightarrow> string \<Rightarrow> string list" where
  "split_all sep s = split_acc sep [] s"

text \<open>\<open>xs[i]\<close> for a non-negative index: out of range raises \<open>IndexError\<close>.\<close>

definition index :: "'a list \<Rightarrow> nat \<Rightarrow> error + 'a" where
  "index xs i = (if i < length xs then Inr (xs ! i) else Inl IndexError)"

section \<open>CILogon: configuration and claims\<close>

text \<open>
  The value of one key of \<open>allowed_idps\<close> is a dictionary with the optional keys
  \<open>username_derivation\<close> and \<open>allowed_domains\<close>; \<open>username_derivation\<close> is a dictionary with
  the optional keys \<open>username_claim\<close>, \<open>action\<close>, \<open>domain\<close> and \<open>prefix\<close>. A missing key is
  \<open>None\<close>, and subscripting it raises \<open>KeyError\<close>.
\<close>

record derivation_dict =
  ud_username_claim :: "string option"
  ud_action :: "string option"
  ud_domain :: "string option"
  ud_prefix :: "string option"

record idp_dict =
  username_derivation :: "derivation_dict option"
  allowed_domains :: "string list option"

record cilogon =
  username_claim :: string
  additional_username_claims :: "string list"
  allowed_idps :: "idp_dict dict"
  allowed_users :: "string set"

text \<open>The claims of one login (\<open>user_info\<close>): claim name to string value.\<close>

type_synonym user_info = "string dict"

text \<open>A JSON value, as \<open>json.loads\<close> returns it.\<close>

datatype json =
    JNull
  | JBool bool
  | JNum int
  | JStr string
  | JArr "json list"
  | JObj "(string \<times> json) list"

text \<open>
  A GET request: the URL, and the token and token type that
  \<open>build_userdata_request_headers\<close> puts into its headers.
\<close>

record request =
  req_url :: string
  req_access_token :: string
  req_token_type :: string

text \<open>
  What the code writes to its log and what it sends over the network, in the order it
  happens. Each log constructor stands for one message of the source and carries the values
  the message interpolates.
\<close>

datatype event =
    Get request
  | LogErrorNoUsernameClaim "string list" "string list"
  | LogErrorIdpNotAllowed string
  | LogErrorNotEntityId string
  | LogDebugChecking string string
  | LogDebugAllowing string string
  | LogDebugNotMember string string nat json
  | LogWarningNotInOrganizations string

subsection \<open>Claim resolution\<close>

text \<open>\<open>CILogonOAuthenticator._get_final_username_claim_list\<close>.\<close>

definition get_final_username_claim_list :: "cilogon \<Rightarrow> user_info \<Rightarrow> error + string list" where
  "get_final_username_claim_list self user_info =
     (let username_claims = username_claim self # additional_username_claims self in
      if allowed_idps self \<noteq> [] then
        (case getitem user_info ''idp'' of
           Inl e \<Rightarrow> Inl e
         | Inr selected_idp \<Rightarrow>
             (case map_of (allowed_idps self) selected_idp of
                Some entry \<Rightarrow>
                  (case username_derivation entry of
                     None \<Rightarrow> Inl (KeyError ''username_derivation'')
                   | Some ud \<Rightarrow>
                       (case ud_username_claim ud of
                          None \<Rightarrow> Inl (KeyError ''username_claim'')
                        | Some c \<Rightarrow> Inr [c]))
              | None \<Rightarrow> Inr username_claims))
      else Inr username_claims)"

text \<open>
  \<open>CILogonOAuthenticator._get_username_from_claim_list\<close>: the loop variable \<open>username\<close>
  is returned, so when no claim is truthy the result is the last lookup (\<open>None\<close> or \<open>""\<close>).
\<close>

fun claim_loop :: "user_info \<Rightarrow> string option \<Rightarrow> string list \<Rightarrow> string option" where
  "claim_loop user_info username [] = username"
| "claim_loop user_info username (claim # claims) =
     (let username' = dict_get user_info claim in
      if truthy username' then username' else claim_loop user_info username' claims)"

definition get_username_from_claim_list :: "user_info \<Rightarrow> string list \<Rightarrow> string option" where
  "get_username_from_claim_list user_info username_claims =
     claim_loop user_info None username_claims"

text \<open>\<open>CILogonOAuthenticator.user_info_to_username\<close>, with what it logs.\<close>

definition user_info_to_username :: "cilogon \<Rightarrow> user_info \<Rightarrow> (error + string) \<times> event list" where
  "user_info_to_username self user_info =
     (case get_final_username_claim_list self user_info of
        Inl e \<Rightarrow> (Inl e, [])
      | Inr username_claims \<Rightarrow>
          (case get_username_from_claim_list user_info username_claims of
             None \<Rightarrow>
               (Inl (HTTPError 500 ''Failed to get username from CILogon''),
                [LogErrorNoUsernameClaim username_claims (sort (dict_keys user_info))])
           | Some username \<Rightarrow>
               if username = [] then
                 (Inl (HTTPError 500 ''Failed to get username from CILogon''),
                  [LogErrorNoUsernameClaim username_claims (sort (dict_keys user_info))])
               else if allowed_idps self \<noteq> [] then
                 (case getitem user_info ''idp'' of
                    Inl e \<Rightarrow> (Inl e, [])
                  | Inr selected_idp \<Rightarrow>
                      (case map_of (allowed_idps self) selected_idp of
                         None \<Rightarrow> (Inr username, [])
                       | Some entry \<Rightarrow>
                           (case username_derivation entry of
                              None \<Rightarrow> (Inl (KeyError ''username_derivation''), [])
                            | Some ud \<Rightarrow>
                                if ud_action ud = Some ''strip_idp_domain'' then
                                  (case index (split1 CHR ''@'' username) 0 of
                                     Inl e \<Rightarrow> (Inl e, [])
                                   | Inr u \<Rightarrow> (Inr u, []))
                                else if ud_action ud = Some ''prefix'' then
                                  (case ud_prefix ud of
                                     None \<Rightarrow> (Inl (KeyError ''prefix''), [])
                                   | Some p \<Rightarrow> (Inr (p @ '':'' @ username), []))
                                else (Inr username, []))))
               else (Inr username, [])))"

subsection \<open>Authorization decision\<close>

text \<open>
  The authentication model handed to \<open>check_allowed\<close>: \<open>auth_model["admin"]\<close> and
  \<open>auth_model["auth_state"]["cilogon_user"]\<close>. \<open>None\<close> is Python's \<open>None\<close>.
\<close>

record cilogon_auth_model =
  admin :: bool
  cilogon_user :: user_info

text \<open>Truthiness of an optional list (\<open>None\<close> and \<open>[]\<close> are falsy) and of a set.\<close>

definition nonempty :: "'a list option \<Rightarrow> bool" where
  "nonempty v = (case v of None \<Rightarrow> False | Some xs \<Rightarrow> xs \<noteq> [])"

definition nonempty_set :: "'a set \<Rightarrow> bool" where
  "nonempty_set s = (s \<noteq> {})"

text \<open>
  \<open>CILogonOAuthenticator.check_allowed\<close>. \<open>Inr True\<close> and \<open>Inr False\<close> are the returned
  booleans, \<open>Inl\<close> is a raised exception. \<open>username_with_domain.split("@", 1)[1]\<close> raises
  \<open>AttributeError\<close> on \<open>None\<close> and \<open>IndexError\<close> when there is no second piece.
\<close>

definition cilogon_check_allowed ::
  "cilogon \<Rightarrow> string \<Rightarrow> cilogon_auth_model option \<Rightarrow> (error + bool) \<times> event list" where
  "cilogon_check_allowed self username auth_model =
     (case auth_model of
        None \<Rightarrow> (Inr True, [])
      | Some am \<Rightarrow>
          if admin am then (Inr True, [])
          else if allowed_idps self \<noteq> [] then
            (let user_info = cilogon_user am in
             case getitem user_info ''idp'' of
               Inl e \<Rightarrow> (Inl e, [])
             | Inr selected_idp \<Rightarrow>
                 (case map_of (allowed_idps self) selected_idp of
                    None \<Rightarrow>
                      (Inl (HTTPError 403
                         ''Trying to login using an identity provider that was not allowed''),
                       [LogErrorIdpNotAllowed selected_idp])
                  | Some entry \<Rightarrow>
                      if nonempty_set (allowed_users self) \<or> nonempty (allowed_domains entry) then
                        if username \<in> allowed_users self then (Inr True, [])
                        else if nonempty (allowed_domains entry) then
                          (case get_final_username_claim_list self user_info of
                             Inl e \<Rightarrow> (Inl e, [])
                           | Inr username_claims \<Rightarrow>
                               (case get_username_from_claim_list user_info username_claims of
                                  None \<Rightarrow> (Inl AttributeError, [])
                                | Some username_with_domain \<Rightarrow>
                                    (case index (split1 CHR ''@'' username_with_domain) 1 of
                                       Inl e \<Rightarrow> (Inl e, [])
                                     | Inr user_domain \<Rightarrow>
                                         if user_domain \<in> set (the (allowed_domains entry))
                                         then (Inr True, [])
                                         else
                                           (Inl (HTTPError 403
                                              ''Trying to login using a domain that was not allowed''),
                                            []))))
                        else (Inr False, [])
                      else (Inr True, [])))
          else if nonempty_set (allowed_users self) then
            (if username \<in> allowed_users self then (Inr True, []) else (Inr False, []))
          else (Inr True, []))"

subsection \<open>Configuration validation\<close>

text \<open>\<open>CILogonOAuthenticator._validate_scope\<close>; \<open>scopes += [...]\<close> extends the proposed list.\<close>

definition validate_scope :: "cilogon \<Rightarrow> string list \<Rightarrow> string list" where
  "validate_scope self proposal =
     (let scopes = (if ''openid'' \<notin> set proposal then proposal @ [''openid''] else proposal);
          scopes' = (if allowed_idps self \<noteq> [] \<and> ''org.cilogon.userinfo'' \<notin> set scopes
                     then scopes @ [''org.cilogon.userinfo''] else scopes)
      in scopes')"

text \<open>
  Modelled from the spec: the file \<open>schemas/cilogon-schema.yaml\<close> that
  \<open>jsonschema.validate\<close> checks every entry against is not among the sources. The spec
  (4.2, 6) and the help text of \<open>allowed_idps\<close> give its constraints: \<open>username_claim\<close> is
  required for each entry, \<open>action\<close> is \<open>strip_idp_domain\<close> or \<open>prefix\<close> when given,
  \<open>strip_idp_domain\<close> requires \<open>domain\<close>, and \<open>prefix\<close> requires \<open>prefix\<close>.
\<close>

definition schema_valid :: "idp_dict \<Rightarrow> bool" where
  "schema_valid entry =
     (case username_derivation entry of
        None \<Rightarrow> False
      | Some ud \<Rightarrow>
          ud_username_claim ud \<noteq> None \<and>
          (case ud_action ud of
             None \<Rightarrow> True
           | Some a \<Rightarrow>
               if a = ''strip_idp_domain'' then ud_domain ud \<noteq> None
               else if a = ''prefix'' then ud_prefix ud \<noteq> None
               else False))"

text \<open>
  \<open>urllib.parse.urlparse\<close> belongs to the standard library, so the validation takes it as
  a parameter \<open>urlparse\<close>: the \<open>scheme\<close> of the parsed identifier, or the \<open>ValueError\<close> it
  raises on an identifier it refuses. \<open>urlparse_scheme\<close> is the rule by which \<open>urlparse\<close>
  finds the scheme: the text before the first \<open>:\<close>, lower-cased, when it starts with an
  ASCII letter and consists of letters, digits, \<open>+\<close>, \<open>-\<close> and \<open>.\<close>; the empty string
  otherwise. \<open>py_urlparse\<close> is \<open>urlparse\<close> on the identifiers it does not refuse.
\<close>

definition is_ascii_alpha :: "char \<Rightarrow> bool" where
  "is_ascii_alpha c =
     (let n = (of_char c :: nat) in (65 \<le> n \<and> n \<le> 90) \<or> (97 \<le> n \<and> n \<le> 122))"

definition is_scheme_char :: "char \<Rightarrow> bool" where
  "is_scheme_char c =
     (let n = (of_char c :: nat) in
      is_ascii_alpha c \<or> (48 \<le> n \<and> n \<le> 57) \<or> c = CHR ''+'' \<or> c = CHR ''-'' \<or> c = CHR ''.'')"

definition ascii_lower :: "char \<Rightarrow> char" where
  "ascii_lower c =
     (let n = (of_char c :: nat) in if 65 \<le> n \<and> n \<le> 90 then char_of (n + 32) else c)"

definition urlparse_scheme :: "string \<Rightarrow> string" where
  "urlparse_scheme url =
     (let candidate = takeWhile (\<lambda>c. c \<noteq> CHR '':'') url in
      if CHR '':'' \<in> set url \<and> candidate \<noteq> [] \<and> is_ascii_alpha (hd candidate)
         \<and> list_all is_scheme_char candidate
      then map ascii_lower candidate else [])"

definition py_urlparse :: "string \<Rightarrow> error + string" where
  "py_urlparse url = Inr (urlparse_scheme url)"

definition accepted_entity_id_scheme :: "string list" where
  "accepted_entity_id_scheme = [''urn'', ''https'', ''http'']"

text \<open>
  \<open>CILogonOAuthenticator._validate_allowed_idps\<close>: the loop over \<open>idps.items()\<close> stops at
  the first entry that fails, with the exception of that entry.
\<close>

fun validate_entries ::
  "(string \<Rightarrow> error + string) \<Rightarrow> idp_dict dict \<Rightarrow> error option \<times> event list" where
  "validate_entries urlparse [] = (None, [])"
| "validate_entries urlparse ((entity_id, entry) # rest) =
     (if \<not> schema_valid entry then (Some ValidationError, [])
      else
        (case urlparse entity_id of
           Inl e \<Rightarrow> (Some e, [])
         | Inr entity_id_scheme \<Rightarrow>
             if entity_id_scheme \<notin> set accepted_entity_id_scheme
             then (Some ValueError, [LogErrorNotEntityId entity_id])
             else validate_entries urlparse rest))"

definition validate_allowed_idps ::
  "(string \<Rightarrow> error + string) \<Rightarrow> idp_dict dict \<Rightarrow> (error + idp_dict dict) \<times> event list" where
  "validate_allowed_idps urlparse idps =
     (case validate_entries urlparse idps of
        (None, log) \<Rightarrow> (Inr idps, log)
      | (Some e, log) \<Rightarrow> (Inl e, log))"

section \<open>GitHub: organization membership and pagination\<close>

text \<open>
  \<open>allowed_organizations\<close> is a set in the source; the list is the order in which the
  \<open>for\<close> loop visits it.
\<close>

record github =
  github_api :: string
  allowed_organizations :: "string list"

text \<open>
  An HTTP response: the status, the body as \<open>json.loads\<close> reads it (\<open>None\<close> when it raises
  \<open>ValueError\<close>), and the \<open>Link\<close> header as \<open>parse_header_links\<close> reads it (\<open>None\<close> when the
  header is absent; an empty header is falsy and parses to no link, which leave the loop
  the same way).
\<close>

record response =
  code :: nat
  body :: "json option"
  link :: "string dict list option"

text \<open>
  \<open>auth_model["auth_state"]["token_response"]\<close> with its \<open>access_token\<close> and \<open>token_type\<close>.
\<close>

record github_auth_model =
  access_token :: string
  token_type :: string

text \<open>
  \<open>GitHubOAuthenticator._check_membership_allowed_organizations\<close>. \<open>httpfetch\<close> is called
  with \<open>raise_error=False\<close>, so it returns a response for every status.
  \<open>org, team = org_team.split(":")\<close> raises \<open>ValueError\<close> unless there are two pieces, and
  \<open>resp_json.get\<close> raises \<open>AttributeError\<close> when the body is JSON but not an object; only
  \<open>ValueError\<close> is caught there.
\<close>

definition check_membership_allowed_organizations ::
  "github \<Rightarrow> (request \<Rightarrow> response) \<Rightarrow> string \<Rightarrow> string \<Rightarrow> string \<Rightarrow> string
     \<Rightarrow> (error + bool) \<times> event list" where
  "check_membership_allowed_organizations self httpfetch org_team username token ttype =
     (case (if CHR '':'' \<in> set org_team then
              (case split_all CHR '':'' org_team of
                 [org, team] \<Rightarrow>
                   Inr (org, github_api self @ ''/orgs/'' @ org @ ''/teams/'' @ team
                             @ ''/members/'' @ username)
               | _ \<Rightarrow> Inl ValueError)
            else Inr (org_team, github_api self @ ''/orgs/'' @ org_team
                                @ ''/members/'' @ username)) of
        Inl e \<Rightarrow> (Inl e, [])
      | Inr (org, api_url) \<Rightarrow>
          (let req = \<lparr>req_url = api_url, req_access_token = token, req_token_type = ttype\<rparr>;
               resp = httpfetch req;
               trace = [LogDebugChecking username org, Get req]
           in if code resp = 204 then (Inr True, trace @ [LogDebugAllowing username org_team])
              else
                (case body resp of
                   None \<Rightarrow>
                     (Inr False, trace @ [LogDebugNotMember username org_team (code resp) (JStr [])])
                 | Some (JObj members) \<Rightarrow>
                     (Inr False,
                      trace @ [LogDebugNotMember username org_team (code resp)
                                 (case map_of members ''message'' of
                                    None \<Rightarrow> JStr [] | Some m \<Rightarrow> m)])
                 | Some _ \<Rightarrow> (Inl AttributeError, trace))))"

text \<open>
  \<open>GitHubOAuthenticator.check_allowed\<close>. \<open>base\<close> is the outcome of
  \<open>super().check_allowed(username, auth_model)\<close>, which is not among the sources.
\<close>

fun org_loop ::
  "github \<Rightarrow> (request \<Rightarrow> response) \<Rightarrow> string \<Rightarrow> string \<Rightarrow> string \<Rightarrow> string list
     \<Rightarrow> (error + bool) \<times> event list" where
  "org_loop self httpfetch username token ttype [] = (Inr False, [])"
| "org_loop self httpfetch username token ttype (org_team # rest) =
     (case check_membership_allowed_organizations self httpfetch org_team username token ttype of
        (Inl e, trace) \<Rightarrow> (Inl e, trace)
      | (Inr True, trace) \<Rightarrow> (Inr True, trace)
      | (Inr False, trace) \<Rightarrow>
          (case org_loop self httpfetch username token ttype rest of
             (r, trace') \<Rightarrow> (r, trace @ trace')))"

definition github_check_allowed ::
  "github \<Rightarrow> (request \<Rightarrow> response) \<Rightarrow> error + bool \<Rightarrow> string \<Rightarrow> github_auth_model
     \<Rightarrow> (error + bool) \<times> event list" where
  "github_check_allowed self httpfetch base username auth_model =
     (case base of
        Inl e \<Rightarrow> (Inl e, [])
      | Inr True \<Rightarrow> (Inr True, [])
      | Inr False \<Rightarrow>
          if allowed_organizations self \<noteq> [] then
            (case org_loop self httpfetch username (access_token auth_model)
                    (token_type auth_model) (allowed_organizations self) of
               (Inr False, trace) \<Rightarrow> (Inr False, trace @ [LogWarningNotInOrganizations username])
             | (r, trace) \<Rightarrow> (r, trace))
          else (Inr False, []))"

text \<open>\<open>content += resp_json\<close>: a list is extended by any iterable, anything else raises.\<close>

definition extend :: "json list \<Rightarrow> json \<Rightarrow> error + json list" where
  "extend content resp_json =
     (case resp_json of
        JArr items \<Rightarrow> Inr (content @ items)
      | JObj members \<Rightarrow> Inr (content @ map JStr (dict_keys members))
      | JStr s \<Rightarrow> Inr (content @ map (\<lambda>c. JStr [c]) s)
      | _ \<Rightarrow> Inl TypeError)"

text \<open>The \<open>for l in links\<close> loop: the \<open>url\<close> of the first link whose \<open>rel\<close> is \<open>next\<close>.\<close>

fun find_next :: "string dict list \<Rightarrow> error + string option" where
  "find_next [] = Inr None"
| "find_next (l # links) =
     (if dict_get l ''rel'' = Some ''next''
      then (case getitem l ''url'' of Inl e \<Rightarrow> Inl e | Inr u \<Rightarrow> Inr (Some u))
      else find_next links)"

text \<open>
  \<open>GitHubOAuthenticator._paginated_fetch\<close>. The \<open>while True\<close> loop has no bound, so the
  function is partial: \<open>None\<close> is a run that never returns. Here \<open>httpfetch\<close> raises on an
  HTTP error (\<open>Inl\<close>).
\<close>

partial_function (option) paginated_loop ::
  "(request \<Rightarrow> error + response) \<Rightarrow> string \<Rightarrow> string \<Rightarrow> string \<Rightarrow> json list \<Rightarrow> event list
     \<Rightarrow> ((error + json list) \<times> event list) option" where
  "paginated_loop httpfetch url token ttype content trace =
     (let req = \<lparr>req_url = url, req_access_token = token, req_token_type = ttype\<rparr>;
          trace' = trace @ [Get req]
      in case httpfetch req of
           Inl e \<Rightarrow> Some (Inl e, trace')
         | Inr resp \<Rightarrow>
             (case body resp of
                None \<Rightarrow> Some (Inl ValueError, trace')
              | Some resp_json \<Rightarrow>
                  (case extend content resp_json of
                     Inl e \<Rightarrow> Some (Inl e, trace')
                   | Inr content' \<Rightarrow>
                       (case link resp of
                          None \<Rightarrow> Some (Inr content', trace')
                        | Some links \<Rightarrow>
                            (case find_next links of
                               Inl e \<Rightarrow> Some (Inl e, trace')
                             | Inr None \<Rightarrow> Some (Inr content', trace')
                             | Inr (Some next_url) \<Rightarrow>
                                 paginated_loop httpfetch next_url token ttype content' trace')))))"

definition paginated_fetch ::
  "(request \<Rightarrow> error + response) \<Rightarrow> string \<Rightarrow> string \<Rightarrow> string
     \<Rightarrow> ((error + json list) \<times> event list) option" where
  "paginated_fetch httpfetch api_url token ttype =
     paginated_loop httpfetch api_url token ttype [] []"

subsection \<open>Chains of pages\<close>

text \<open>The requests among the events of a trace, in order.\<close>

fun requests_of :: "event list \<Rightarrow> request list" where
  "requests_of [] = []"
| "requests_of (Get r # es) = r # requests_of es"
| "requests_of (_ # es) = requests_of es"

text \<open>
  A chain of pages, in the words of the spec: fetching \<open>url\<close> answers with the first page, a
  JSON list; every page but the last has a \<open>Link\<close> header with a link tagged \<open>next\<close>, whose
  \<open>url\<close> answers with the rest of the chain; the last page has no \<open>Link\<close> header or no link
  tagged \<open>next\<close>.
\<close>

definition next_link :: "string dict list \<Rightarrow> string dict option" where
  "next_link links = find (\<lambda>l. dict_get l ''rel'' = Some ''next'') links"

fun page_chain ::
  "(request \<Rightarrow> error + response) \<Rightarrow> string \<Rightarrow> string \<Rightarrow> string \<Rightarrow> json list list \<Rightarrow> bool" where
  "page_chain httpfetch url token ttype [] = False"
| "page_chain httpfetch url token ttype (page # pages) =
     (case httpfetch \<lparr>req_url = url, req_access_token = token, req_token_type = ttype\<rparr> of
        Inl e \<Rightarrow> False
      | Inr resp \<Rightarrow>
          body resp = Some (JArr page) \<and>
          (case pages of
             [] \<Rightarrow> (case link resp of None \<Rightarrow> True | Some links \<Rightarrow> next_link links = None)
           | _ # _ \<Rightarrow>
               (case link resp of
                  None \<Rightarrow> False
                | Some links \<Rightarrow>
                    (case next_link links of
                       None \<Rightarrow> False
                     | Some l \<Rightarrow>
                         (case dict_get l ''url'' of
                            None \<Rightarrow> False
                          | Some u \<Rightarrow> page_chain httpfetch u token ttype pages)))))"

section \<open>Example inputs\<close>

text \<open>Configurations and claim sets on which the theorems below are evaluated.\<close>

definition cilogon_open :: cilogon where
  "cilogon_open = \<lparr>username_claim = ''eppn'', additional_username_claims = [''email''],
           allowed_idps = [], allowed_users = {}\<rparr>"

definition cilogon_domains :: cilogon where
  "cilogon_domains = \<lparr>username_claim = ''eppn'', additional_username_claims = [''email''],
     allowed_idps =
       [(''https://idp.example/shibboleth'',
         \<lparr>username_derivation =
            Some \<lparr>ud_username_claim = Some ''email'', ud_action = None,
                  ud_domain = None, ud_prefix = None\<rparr>,
          allowed_domains = Some [''example.edu'']\<rparr>)],
     allowed_users = {''alice''}\<rparr>"

definition claims_univ :: user_info where
  "claims_univ = [(''idp'', ''https://idp.example/shibboleth''), (''eppn'', ''x@campus.example''),
                  (''email'', ''x@example.edu'')]"

definition claims_other :: user_info where
  "claims_other = [(''idp'', ''https://other.example/idp''), (''eppn'', []),
                   (''email'', ''bob@other.org'')]"

definition claims_nameless :: user_info where
  "claims_nameless = [(''name'', ''Bob''), (''idp'', ''https://other.example/idp''), (''eppn'', [])]"

definition cilogon_static :: cilogon where
  "cilogon_static = \<lparr>username_claim = ''eppn'', additional_username_claims = [''email''],
     allowed_idps =
       [(''https://idp.example/shibboleth'',
         \<lparr>username_derivation =
            Some \<lparr>ud_username_claim = Some ''email'', ud_action = None,
                  ud_domain = None, ud_prefix = None\<rparr>,
          allowed_domains = None\<rparr>)],
     allowed_users = {''alice''}\<rparr>"

definition cilogon_actions :: cilogon where
  "cilogon_actions = \<lparr>username_claim = ''eppn'', additional_username_claims = [''email''],
     allowed_idps =
       [(''https://idp.example/shibboleth'',
         \<lparr>username_derivation =
            Some \<lparr>ud_username_claim = Some ''email'', ud_action = Some ''strip_idp_domain'',
                  ud_domain = Some ''example.edu'', ud_prefix = None\<rparr>,
          allowed_domains = None\<rparr>),
        (''https://github.com/login/oauth/authorize'',
         \<lparr>username_derivation =
            Some \<lparr>ud_username_claim = Some ''username'', ud_action = Some ''prefix'',
                  ud_domain = None, ud_prefix = Some ''gh''\<rparr>,
          allowed_domains = None\<rparr>),
        (''http://google.com/accounts/o8/id'',
         \<lparr>username_derivation =
            Some \<lparr>ud_username_claim = Some ''email'', ud_action = None,
                  ud_domain = None, ud_prefix = None\<rparr>,
          allowed_domains = None\<rparr>)],
     allowed_users = {}\<rparr>"

definition claims_github :: user_info where
  "claims_github = [(''idp'', ''https://github.com/login/oauth/authorize''),
                    (''username'', ''octocat'')]"

definition claims_google :: user_info where
  "claims_google = [(''idp'', ''http://google.com/accounts/o8/id''),
                    (''email'', ''z@gmail.com'')]"

definition claims_univ_other :: user_info where
  "claims_univ_other = [(''idp'', ''https://idp.example/shibboleth''),
                        (''email'', ''x@other.org'')]"

definition login_x :: cilogon_auth_model where
  "login_x = \<lparr>admin = False, cilogon_user = claims_univ\<rparr>"

definition login_x_other :: cilogon_auth_model where
  "login_x_other = \<lparr>admin = False, cilogon_user = claims_univ_other\<rparr>"

definition login_admin :: cilogon_auth_model where
  "login_admin = \<lparr>admin = True, cilogon_user = claims_univ_other\<rparr>"

definition table_missing_prefix :: "idp_dict dict" where
  "table_missing_prefix =
     [(''https://github.com/login/oauth/authorize'',
       \<lparr>username_derivation =
          Some \<lparr>ud_username_claim = Some ''username'', ud_action = Some ''prefix'',
                ud_domain = None, ud_prefix = None\<rparr>,
        allowed_domains = None\<rparr>)]"

definition table_bare_domain :: "idp_dict dict" where
  "table_bare_domain =
     [(''https://idp.example/shibboleth'',
       \<lparr>username_derivation =
          Some \<lparr>ud_username_claim = Some ''email'', ud_action = None,
                ud_domain = None, ud_prefix = None\<rparr>,
        allowed_domains = None\<rparr>),
      (''github.com'',
       \<lparr>username_derivation =
          Some \<lparr>ud_username_claim = Some ''username'', ud_action = None,
                ud_domain = None, ud_prefix = None\<rparr>,
        allowed_domains = None\<rparr>)]"

definition two_pages :: "request \<Rightarrow> error + response" where
  "two_pages req =
     (if req_url req = ''https://api.github.com/user/teams?per_page=100'' then
        Inr \<lparr>code = 200, body = Some (JArr [JStr ''team-a'', JStr ''team-b'']),
             link = Some [[(''url'', ''https://api.github.com/user/teams?page=2''),
                           (''rel'', ''next'')],
                          [(''url'', ''https://api.github.com/user/teams?page=2''),
                           (''rel'', ''last'')]]\<rparr>
      else if req_url req = ''https://api.github.com/user/teams?page=2'' then
        Inr \<lparr>code = 200, body = Some (JArr [JStr ''team-c'']),
             link = Some [[(''url'', ''https://api.github.com/user/teams?per_page=100''),
                           (''rel'', ''first'')]]\<rparr>
      else Inl (HTTPClientError 404))"

definition claims_no_at :: user_info where
  "claims_no_at = [(''idp'', ''https://idp.example/shibboleth''), (''email'', ''jdoe'')]"

definition claims_no_idp :: user_info where
  "claims_no_idp = [(''email'', ''x@example.edu'')]"

definition login_no_at :: cilogon_auth_model where
  "login_no_at = \<lparr>admin = False, cilogon_user = claims_no_at\<rparr>"

definition login_no_idp :: cilogon_auth_model where
  "login_no_idp = \<lparr>admin = False, cilogon_user = claims_no_idp\<rparr>"

definition hub :: github where
  "hub = \<lparr>github_api = ''https://api.github.com'',
          allowed_organizations = [''org-a'', ''org-b:team-x'']\<rparr>"

definition hub_one :: github where
  "hub_one = \<lparr>github_api = ''https://api.github.com'', allowed_organizations = [''org-a'']\<rparr>"

text \<open>
  A server that answers the membership request for \<open>org-a\<close> with a gateway error whose body
  is the JSON list \<open>[]\<close>, the one for team \<open>team-x\<close> of \<open>org-b\<close> with 204, and anything else
  with GitHub's 404 object.
\<close>

definition flaky_api :: "request \<Rightarrow> response" where
  "flaky_api req =
     (if req_url req = ''https://api.github.com/orgs/org-a/members/alice'' then
        \<lparr>code = 502, body = Some (JArr []), link = None\<rparr>
      else if req_url req = ''https://api.github.com/orgs/org-b/teams/team-x/members/alice'' then
        \<lparr>code = 204, body = None, link = None\<rparr>
      else \<lparr>code = 404, body = Some (JObj [(''message'', JStr ''Not Found'')]), link = None\<rparr>)"

definition token_alice :: github_auth_model where
  "token_alice = \<lparr>access_token = ''t0k'', token_type = ''bearer''\<rparr>"

section \<open>Properties\<close>

subsection \<open>Scope validation\<close>

text \<open>
  C10. For every proposed scope list the validated list contains \<open>openid\<close>; when
  \<open>allowed_idps\<close> is non-empty it also contains \<open>org.cilogon.userinfo\<close>. The proposed scopes
  are kept, in their order, at the front of the result, and nothing but these two scopes
  is ever added.
\<close>

theorem validate_scope_invariant:
  "''openid'' \<in> set (validate_scope self proposal)
   \<and> (allowed_idps self \<noteq> [] \<longrightarrow> ''org.cilogon.userinfo'' \<in> set (validate_scope self proposal))
   \<and> take (length proposal) (validate_scope self proposal) = proposal
   \<and> set (validate_scope self proposal)
        \<subseteq> set proposal \<union> {''openid'', ''org.cilogon.userinfo''}"
  by (auto simp: validate_scope_def Let_def)

theorem validate_scope_invariant_witness:
  "allowed_idps cilogon_domains \<noteq> []
   \<and> validate_scope cilogon_domains [''email''] = [''email'', ''openid'', ''org.cilogon.userinfo'']
   \<and> ''org.cilogon.userinfo'' \<in> set (validate_scope cilogon_domains [''email''])"
  using validate_scope_invariant [of cilogon_domains "[''email'']"]
  by (simp add: cilogon_domains_def validate_scope_def)

subsection \<open>Claim resolution\<close>

lemma claim_loop_find_Some:
  "find (\<lambda>c. truthy (dict_get user_info c)) claims = Some c
   \<Longrightarrow> claim_loop user_info u claims = dict_get user_info c"
  by (induction claims arbitrary: u) (auto simp: Let_def split: if_splits)

lemma claim_loop_find_None:
  "find (\<lambda>c. truthy (dict_get user_info c)) claims = None \<Longrightarrow> \<not> truthy u
   \<Longrightarrow> \<not> truthy (claim_loop user_info u claims)"
  by (induction claims arbitrary: u) (auto simp: Let_def split: if_splits)

lemma find_truthy: "find P xs = Some x \<Longrightarrow> P x"
  by (induction xs) (auto split: if_splits)

text \<open>
  C2. When the claims' \<open>idp\<close> is a key of \<open>allowed_idps\<close>, the candidate list is exactly the
  entry's \<open>username_derivation.username_claim\<close>: neither \<open>username_claim\<close> nor
  \<open>additional_username_claims\<close> occurs in it. When the \<open>idp\<close> is not a key of the table, or
  the table is empty, the list is \<open>username_claim\<close> followed by
  \<open>additional_username_claims\<close>. For any candidate list, the resolved username is the value
  of the first candidate whose value is present and non-empty (\<open>find\<close> returns the first
  such candidate), and when there is none nothing truthy is resolved.
\<close>

theorem resolve_username_candidates:
  "(dict_get user_info ''idp'' = Some idp \<and> map_of (allowed_idps self) idp = Some entry
      \<and> username_derivation entry = Some ud \<and> ud_username_claim ud = Some c
     \<longrightarrow> get_final_username_claim_list self user_info = Inr [c])
   \<and> (dict_get user_info ''idp'' = Some idp \<and> map_of (allowed_idps self) idp = None
     \<longrightarrow> get_final_username_claim_list self user_info
           = Inr (username_claim self # additional_username_claims self))
   \<and> (allowed_idps self = []
     \<longrightarrow> get_final_username_claim_list self user_info
           = Inr (username_claim self # additional_username_claims self))
   \<and> (find (\<lambda>x. truthy (dict_get user_info x)) claims = Some first
     \<longrightarrow> get_username_from_claim_list user_info claims = dict_get user_info first
         \<and> truthy (dict_get user_info first))
   \<and> (find (\<lambda>x. truthy (dict_get user_info x)) claims = None
     \<longrightarrow> \<not> truthy (get_username_from_claim_list user_info claims))"
proof -
  have a: "dict_get user_info ''idp'' = Some idp \<and> map_of (allowed_idps self) idp = Some entry
      \<and> username_derivation entry = Some ud \<and> ud_username_claim ud = Some c
     \<longrightarrow> get_final_username_claim_list self user_info = Inr [c]"
    by (auto simp: get_final_username_claim_list_def getitem_def dict_get_def Let_def)
  have b: "dict_get user_info ''idp'' = Some idp \<and> map_of (allowed_idps self) idp = None
     \<longrightarrow> get_final_username_claim_list self user_info
           = Inr (username_claim self # additional_username_claims self)"
    by (simp add: get_final_username_claim_list_def getitem_def dict_get_def Let_def)
  have c: "allowed_idps self = []
     \<longrightarrow> get_final_username_claim_list self user_info
           = Inr (username_claim self # additional_username_claims self)"
    by (simp add: get_final_username_claim_list_def Let_def)
  have d: "find (\<lambda>x. truthy (dict_get user_info x)) claims = Some first
     \<longrightarrow> get_username_from_claim_list user_info claims = dict_get user_info first
         \<and> truthy (dict_get user_info first)"
    using claim_loop_find_Some [of user_info claims first None]
      find_truthy [of "\<lambda>x. truthy (dict_get user_info x)" claims first]
    by (simp add: get_username_from_claim_list_def)
  have e: "find (\<lambda>x. truthy (dict_get user_info x)) claims = None
     \<longrightarrow> \<not> truthy (get_username_from_claim_list user_info claims)"
    using claim_loop_find_None [of user_info claims None]
    by (simp add: get_username_from_claim_list_def truthy_def)
  from a b c d e show ?thesis by blast
qed

theorem resolve_username_candidates_witness:
  "get_final_username_claim_list cilogon_domains claims_univ = Inr [''email'']
   \<and> get_username_from_claim_list claims_univ [''email''] = Some ''x@example.edu''
   \<and> map_of (allowed_idps cilogon_domains) ''https://other.example/idp'' = None
   \<and> get_final_username_claim_list cilogon_domains claims_other = Inr [''eppn'', ''email'']
   \<and> get_final_username_claim_list cilogon_open claims_univ = Inr [''eppn'', ''email'']
   \<and> get_username_from_claim_list claims_other [''eppn'', ''email''] = Some ''bob@other.org''
   \<and> find (\<lambda>x. truthy (dict_get claims_nameless x)) [''eppn'', ''email''] = None
   \<and> \<not> truthy (get_username_from_claim_list claims_nameless [''eppn'', ''email''])"
  using resolve_username_candidates [of claims_univ "''https://idp.example/shibboleth''"
      cilogon_domains
      "\<lparr>username_derivation =
            Some \<lparr>ud_username_claim = Some ''email'', ud_action = None,
                  ud_domain = None, ud_prefix = None\<rparr>,
          allowed_domains = Some [''example.edu'']\<rparr>"
      "\<lparr>ud_username_claim = Some ''email'', ud_action = None,
                  ud_domain = None, ud_prefix = None\<rparr>"
      "''email''" "[''email'']" "''email''"]
    resolve_username_candidates [of claims_other "''https://other.example/idp''"
      cilogon_domains _ _ _ "[''eppn'', ''email'']" "''email''"]
    resolve_username_candidates [of claims_nameless _ cilogon_open _ _ _ "[''eppn'', ''email'']"]
    resolve_username_candidates [of claims_univ _ cilogon_open]
  by (simp add: cilogon_domains_def cilogon_open_def claims_univ_def claims_other_def
      claims_nameless_def dict_get_def truthy_def)

lemma claim_loop_falsy:
  "list_all (\<lambda>c. \<not> truthy (dict_get user_info c)) claims \<Longrightarrow> \<not> truthy u
   \<Longrightarrow> \<not> truthy (claim_loop user_info u claims)"
  by (induction claims arbitrary: u) (auto simp: Let_def)

lemma falsy_cases: "\<not> truthy u \<Longrightarrow> u = None \<or> u = Some []"
  by (cases u) (auto simp: truthy_def)

lemma user_info_to_username_falsy:
  assumes "get_final_username_claim_list self user_info = Inr claims"
    and "\<not> truthy (get_username_from_claim_list user_info claims)"
  shows "user_info_to_username self user_info =
     (Inl (HTTPError 500 ''Failed to get username from CILogon''),
      [LogErrorNoUsernameClaim claims (sort (dict_keys user_info))])"
  using assms(1) falsy_cases [OF assms(2)]
  by (auto simp: user_info_to_username_def)

text \<open>
  C7. When the candidate list is \<open>claims\<close> and no candidate has a present, non-empty value,
  \<open>user_info_to_username\<close> raises \<open>HTTPError 500\<close> and returns no username at all. The one
  message it logs carries the candidate list and the claim names of \<open>user_info\<close>, sorted
  and without repetition. No claim value enters the outcome: any other claim set with the same
  names, the same candidate list and no resolvable candidate gives the same error and the same
  log.
\<close>

theorem username_not_found:
  assumes "get_final_username_claim_list self user_info = Inr claims"
    and "list_all (\<lambda>c. \<not> truthy (dict_get user_info c)) claims"
  shows "user_info_to_username self user_info =
           (Inl (HTTPError 500 ''Failed to get username from CILogon''),
            [LogErrorNoUsernameClaim claims (sort (dict_keys user_info))])
         \<and> sorted (sort (dict_keys user_info)) \<and> distinct (sort (dict_keys user_info))
         \<and> set (sort (dict_keys user_info)) = fst ` set user_info
         \<and> (\<forall>other. map fst other = map fst user_info
               \<and> get_final_username_claim_list self other = Inr claims
               \<and> list_all (\<lambda>c. \<not> truthy (dict_get other c)) claims
              \<longrightarrow> user_info_to_username self other = user_info_to_username self user_info)"
proof -
  have falsy: "\<not> truthy (get_username_from_claim_list ui claims)"
    if "list_all (\<lambda>c. \<not> truthy (dict_get ui c)) claims" for ui :: user_info
    using claim_loop_falsy [OF that, of None]
    by (simp add: get_username_from_claim_list_def truthy_def)
  have here: "user_info_to_username self user_info =
           (Inl (HTTPError 500 ''Failed to get username from CILogon''),
            [LogErrorNoUsernameClaim claims (sort (dict_keys user_info))])"
    using user_info_to_username_falsy [OF assms(1) falsy [OF assms(2)]] .
  have keys: "sorted (sort (dict_keys user_info)) \<and> distinct (sort (dict_keys user_info))
         \<and> set (sort (dict_keys user_info)) = fst ` set user_info"
    by (simp add: dict_keys_def)
  have others: "user_info_to_username self other = user_info_to_username self user_info"
    if "map fst other = map fst user_info"
      and "get_final_username_claim_list self other = Inr claims"
      and "list_all (\<lambda>c. \<not> truthy (dict_get other c)) claims" for other
    using user_info_to_username_falsy [OF that(2) falsy [OF that(3)]] here that(1)
    by (simp add: dict_keys_def)
  from here keys others show ?thesis by blast
qed

theorem username_not_found_witness:
  "get_final_username_claim_list cilogon_open claims_nameless = Inr [''eppn'', ''email'']
   \<and> list_all (\<lambda>c. \<not> truthy (dict_get claims_nameless c)) [''eppn'', ''email'']
   \<and> user_info_to_username cilogon_open claims_nameless =
        (Inl (HTTPError 500 ''Failed to get username from CILogon''),
         [LogErrorNoUsernameClaim [''eppn'', ''email''] [''eppn'', ''idp'', ''name'']])"
proof -
  have h1: "get_final_username_claim_list cilogon_open claims_nameless = Inr [''eppn'', ''email'']"
    by (simp add: get_final_username_claim_list_def cilogon_open_def)
  have h2: "list_all (\<lambda>c. \<not> truthy (dict_get claims_nameless c)) [''eppn'', ''email'']"
    by (simp add: claims_nameless_def dict_get_def truthy_def)
  have k: "sort (dict_keys claims_nameless) = [''eppn'', ''idp'', ''name'']"
    by (simp add: claims_nameless_def dict_keys_def)
  from username_not_found [OF h1 h2] h1 h2 k show ?thesis by simp
qed

subsection \<open>Username transformation\<close>

lemma takeWhile_no_sep: "sep \<notin> set s \<Longrightarrow> takeWhile (\<lambda>x. x \<noteq> sep) s = s"
  by (induction s) auto

lemma split1_first: "index (split1 sep s) 0 = Inr (takeWhile (\<lambda>x. x \<noteq> sep) s)"
  by (simp add: index_def split1_def takeWhile_no_sep)

lemma resolve_single:
  assumes "dict_get user_info ''idp'' = Some idp"
    and "map_of (allowed_idps self) idp = Some entry"
    and "username_derivation entry = Some ud"
    and "ud_username_claim ud = Some c"
    and "dict_get user_info c = Some v"
  shows "get_final_username_claim_list self user_info = Inr [c]"
    and "get_username_from_claim_list user_info [c] = Some v"
  using assms
  by (auto simp: get_final_username_claim_list_def getitem_def dict_get_def Let_def
      get_username_from_claim_list_def)

text \<open>
  C9. Let \<open>v\<close> be the non-empty value resolved for a login whose \<open>idp\<close> is a key of
  \<open>allowed_idps\<close>. With the action \<open>strip_idp_domain\<close> the username is \<open>v\<close> up to its first
  \<open>@\<close>: \<open>v\<close> itself when it has no \<open>@\<close>, and stripping the result again returns it
  unchanged. The statement holds for every value of \<open>domain\<close>, which the result does not
  mention. With the action \<open>prefix\<close> and a configured \<open>prefix\<close> \<open>p\<close> the username is \<open>p\<close>,
  a colon, and \<open>v\<close>. With no action the username is \<open>v\<close>.
\<close>

theorem username_transformation:
  assumes "dict_get user_info ''idp'' = Some idp"
    and "map_of (allowed_idps self) idp = Some entry"
    and "username_derivation entry = Some ud"
    and "ud_username_claim ud = Some c"
    and "dict_get user_info c = Some v"
    and "v \<noteq> []"
  shows "(ud_action ud = Some ''strip_idp_domain'' \<longrightarrow>
            user_info_to_username self user_info
              = (Inr (takeWhile (\<lambda>x. x \<noteq> CHR ''@'') v), [])
            \<and> (CHR ''@'' \<notin> set v \<longrightarrow> takeWhile (\<lambda>x. x \<noteq> CHR ''@'') v = v)
            \<and> index (split1 CHR ''@'' (takeWhile (\<lambda>x. x \<noteq> CHR ''@'') v)) 0
                = Inr (takeWhile (\<lambda>x. x \<noteq> CHR ''@'') v))
       \<and> (ud_action ud = Some ''prefix'' \<and> ud_prefix ud = Some p \<longrightarrow>
            user_info_to_username self user_info = (Inr (p @ '':'' @ v), []))
       \<and> (ud_action ud = None \<longrightarrow> user_info_to_username self user_info = (Inr v, []))"
proof -
  note r = resolve_single [OF assms(1-5)]
  have idp: "getitem user_info ''idp'' = Inr idp" and ne: "allowed_idps self \<noteq> []"
    using assms(1,2) by (auto simp: getitem_def dict_get_def)
  have strip: "user_info_to_username self user_info
              = (Inr (takeWhile (\<lambda>x. x \<noteq> CHR ''@'') v), [])"
    if "ud_action ud = Some ''strip_idp_domain''"
    using that r idp ne assms(2,3,6)
    by (simp add: user_info_to_username_def split1_first)
  have idem: "index (split1 CHR ''@'' (takeWhile (\<lambda>x. x \<noteq> CHR ''@'') v)) 0
                = Inr (takeWhile (\<lambda>x. x \<noteq> CHR ''@'') v)"
    by (simp add: split1_first)
  have nochange: "takeWhile (\<lambda>x. x \<noteq> CHR ''@'') v = v" if "CHR ''@'' \<notin> set v"
    using that by (rule takeWhile_no_sep)
  have pre: "user_info_to_username self user_info = (Inr (p @ '':'' @ v), [])"
    if "ud_action ud = Some ''prefix''" "ud_prefix ud = Some p"
    using that r idp ne assms(2,3,6)
    by (simp add: user_info_to_username_def)
  have none: "user_info_to_username self user_info = (Inr v, [])" if "ud_action ud = None"
    using that r idp ne assms(2,3,6)
    by (simp add: user_info_to_username_def)
  from strip idem nochange pre none show ?thesis by blast
qed


theorem username_transformation_witness:
  "user_info_to_username cilogon_actions claims_univ = (Inr ''x'', [])
   \<and> index (split1 CHR ''@'' ''x'') 0 = Inr ''x''
   \<and> user_info_to_username cilogon_actions claims_github = (Inr ''gh:octocat'', [])
   \<and> user_info_to_username cilogon_actions claims_google = (Inr ''z@gmail.com'', [])"
proof -
  have a: "user_info_to_username cilogon_actions claims_univ = (Inr ''x'', [])
           \<and> index (split1 CHR ''@'' ''x'') 0 = Inr ''x''"
    using username_transformation [of claims_univ "''https://idp.example/shibboleth''"
        cilogon_actions
        "\<lparr>username_derivation =
            Some \<lparr>ud_username_claim = Some ''email'', ud_action = Some ''strip_idp_domain'',
                  ud_domain = Some ''example.edu'', ud_prefix = None\<rparr>,
          allowed_domains = None\<rparr>"
        "\<lparr>ud_username_claim = Some ''email'', ud_action = Some ''strip_idp_domain'',
                  ud_domain = Some ''example.edu'', ud_prefix = None\<rparr>"
        "''email''" "''x@example.edu''"]
    by (simp add: cilogon_actions_def claims_univ_def dict_get_def)
  have b: "user_info_to_username cilogon_actions claims_github = (Inr ''gh:octocat'', [])"
    using username_transformation [of claims_github "''https://github.com/login/oauth/authorize''"
        cilogon_actions
        "\<lparr>username_derivation =
            Some \<lparr>ud_username_claim = Some ''username'', ud_action = Some ''prefix'',
                  ud_domain = None, ud_prefix = Some ''gh''\<rparr>,
          allowed_domains = None\<rparr>"
        "\<lparr>ud_username_claim = Some ''username'', ud_action = Some ''prefix'',
                  ud_domain = None, ud_prefix = Some ''gh''\<rparr>"
        "''username''" "''octocat''" "''gh''"]
    by (simp add: cilogon_actions_def claims_github_def dict_get_def)
  have c: "user_info_to_username cilogon_actions claims_google = (Inr ''z@gmail.com'', [])"
    using username_transformation [of claims_google "''http://google.com/accounts/o8/id''"
        cilogon_actions
        "\<lparr>username_derivation =
            Some \<lparr>ud_username_claim = Some ''email'', ud_action = None,
                  ud_domain = None, ud_prefix = None\<rparr>,
          allowed_domains = None\<rparr>"
        "\<lparr>ud_username_claim = Some ''email'', ud_action = None,
                  ud_domain = None, ud_prefix = None\<rparr>"
        "''email''" "''z@gmail.com''"]
    by (simp add: cilogon_actions_def claims_google_def dict_get_def)
  from a b c show ?thesis by simp
qed

subsection \<open>Authorization decision\<close>

lemma split1_second:
  "sep \<in> set s \<Longrightarrow> index (split1 sep s) (Suc 0) = Inr (tl (dropWhile (\<lambda>x. x \<noteq> sep) s))"
  by (simp add: index_def split1_def)

text \<open>
  C1, as amended. Take a login with an authentication model whose \<open>admin\<close> flag is not set
  and whose \<open>idp\<close> is a key of \<open>allowed_idps\<close>, with \<open>allowed_users\<close> or the entry's
  \<open>allowed_domains\<close> non-empty. If the username is in \<open>allowed_users\<close> the decision is Allow,
  whatever the claims hold, so the domain is never looked at. Otherwise, if
  \<open>allowed_domains\<close> is non-empty and the username recomputed from the candidate list
  contains an \<open>@\<close>, the decision is Allow when the text after its first \<open>@\<close> is in
  \<open>allowed_domains\<close>, and \<open>HTTPError 403\<close> with the message about the domain when it is not.
  Otherwise, with only \<open>allowed_users\<close> configured, the decision is Deny (\<open>False\<close>).
\<close>

theorem check_allowed_precedence:
  assumes "\<not> admin am"
    and "dict_get (cilogon_user am) ''idp'' = Some idp"
    and "map_of (allowed_idps self) idp = Some entry"
    and "nonempty_set (allowed_users self) \<or> nonempty (allowed_domains entry)"
  shows "(username \<in> allowed_users self \<longrightarrow>
            cilogon_check_allowed self username (Some am) = (Inr True, []))
       \<and> (username \<notin> allowed_users self \<and> allowed_domains entry = Some domains \<and> domains \<noteq> []
            \<and> get_final_username_claim_list self (cilogon_user am) = Inr claims
            \<and> get_username_from_claim_list (cilogon_user am) claims = Some with_domain
            \<and> CHR ''@'' \<in> set with_domain \<longrightarrow>
              (tl (dropWhile (\<lambda>x. x \<noteq> CHR ''@'') with_domain) \<in> set domains \<longrightarrow>
                 cilogon_check_allowed self username (Some am) = (Inr True, []))
            \<and> (tl (dropWhile (\<lambda>x. x \<noteq> CHR ''@'') with_domain) \<notin> set domains \<longrightarrow>
                 cilogon_check_allowed self username (Some am)
                   = (Inl (HTTPError 403 ''Trying to login using a domain that was not allowed''),
                      [])))
       \<and> (username \<notin> allowed_users self \<and> \<not> nonempty (allowed_domains entry) \<longrightarrow>
            cilogon_check_allowed self username (Some am) = (Inr False, []))"
proof -
  have idp: "getitem (cilogon_user am) ''idp'' = Inr idp" and ne: "allowed_idps self \<noteq> []"
    using assms(2,3) by (auto simp: getitem_def dict_get_def)
  have listed: "cilogon_check_allowed self username (Some am) = (Inr True, [])"
    if "username \<in> allowed_users self"
    using that assms(1,3,4) idp ne
    by (auto simp: cilogon_check_allowed_def Let_def nonempty_set_def)
  have dom: "cilogon_check_allowed self username (Some am) =
      (if tl (dropWhile (\<lambda>x. x \<noteq> CHR ''@'') with_domain) \<in> set domains then (Inr True, [])
       else (Inl (HTTPError 403 ''Trying to login using a domain that was not allowed''), []))"
    if "username \<notin> allowed_users self" "allowed_domains entry = Some domains" "domains \<noteq> []"
      "get_final_username_claim_list self (cilogon_user am) = Inr claims"
      "get_username_from_claim_list (cilogon_user am) claims = Some with_domain"
      "CHR ''@'' \<in> set with_domain"
    using that assms(1,3) idp ne
    by (simp add: cilogon_check_allowed_def Let_def nonempty_def split1_second)
  have static: "cilogon_check_allowed self username (Some am) = (Inr False, [])"
    if "username \<notin> allowed_users self" "\<not> nonempty (allowed_domains entry)"
    using that assms(1,3,4) idp ne
    by (simp add: cilogon_check_allowed_def Let_def)
  from listed dom static show ?thesis by simp
qed

theorem check_allowed_precedence_witness:
  "cilogon_check_allowed cilogon_domains ''alice'' (Some login_x_other) = (Inr True, [])
   \<and> cilogon_check_allowed cilogon_domains ''bob'' (Some login_x) = (Inr True, [])
   \<and> cilogon_check_allowed cilogon_domains ''bob'' (Some login_x_other)
       = (Inl (HTTPError 403 ''Trying to login using a domain that was not allowed''), [])
   \<and> cilogon_check_allowed cilogon_static ''bob'' (Some login_x) = (Inr False, [])"
proof -
  let ?ud = "\<lparr>ud_username_claim = Some ''email'', ud_action = None,
                  ud_domain = None, ud_prefix = None\<rparr>"
  let ?dom = "\<lparr>username_derivation = Some ?ud, allowed_domains = Some [''example.edu'']\<rparr>"
  let ?stat = "\<lparr>username_derivation = Some ?ud, allowed_domains = None\<rparr>"
  have cl: "get_final_username_claim_list cilogon_domains claims_univ = Inr [''email'']"
    "get_final_username_claim_list cilogon_domains claims_univ_other = Inr [''email'']"
    by (simp_all add: get_final_username_claim_list_def getitem_def cilogon_domains_def
        claims_univ_def claims_univ_other_def)
  have un: "get_username_from_claim_list claims_univ [''email''] = Some ''x@example.edu''"
    "get_username_from_claim_list claims_univ_other [''email''] = Some ''x@other.org''"
    by (simp_all add: get_username_from_claim_list_def dict_get_def truthy_def
        claims_univ_def claims_univ_other_def)
  have a: "cilogon_check_allowed cilogon_domains ''alice'' (Some login_x_other) = (Inr True, [])"
    using check_allowed_precedence [of login_x_other "''https://idp.example/shibboleth''"
        cilogon_domains ?dom "''alice''"]
    by (simp add: login_x_other_def claims_univ_other_def cilogon_domains_def dict_get_def
        nonempty_set_def)
  have b: "cilogon_check_allowed cilogon_domains ''bob'' (Some login_x) = (Inr True, [])"
    using check_allowed_precedence [of login_x "''https://idp.example/shibboleth''"
        cilogon_domains ?dom "''bob''" "[''example.edu'']" "[''email'']" "''x@example.edu''"]
      cl un
    by (simp add: login_x_def claims_univ_def cilogon_domains_def dict_get_def
        nonempty_set_def)
  have c: "cilogon_check_allowed cilogon_domains ''bob'' (Some login_x_other)
       = (Inl (HTTPError 403 ''Trying to login using a domain that was not allowed''), [])"
    using check_allowed_precedence [of login_x_other "''https://idp.example/shibboleth''"
        cilogon_domains ?dom "''bob''" "[''example.edu'']" "[''email'']" "''x@other.org''"]
      cl un
    by (simp add: login_x_other_def claims_univ_other_def cilogon_domains_def dict_get_def
        nonempty_set_def)
  have d: "cilogon_check_allowed cilogon_static ''bob'' (Some login_x) = (Inr False, [])"
    using check_allowed_precedence [of login_x "''https://idp.example/shibboleth''"
        cilogon_static ?stat "''bob''"]
    by (simp add: login_x_def claims_univ_def cilogon_static_def dict_get_def
        nonempty_set_def nonempty_def)
  from a b c d show ?thesis by simp
qed

text \<open>
  The claim without the restriction to logins that are not admin fails: \<open>bob\<close> is not in
  \<open>allowed_users\<close>, only the static allow-list is configured, the \<open>idp\<close> is a key of the
  table, and the decision is Allow because the authentication model is flagged admin.
\<close>

theorem check_allowed_admin_counterexample:
  "dict_get (cilogon_user login_admin) ''idp'' = Some ''https://idp.example/shibboleth''
   \<and> has_key (allowed_idps cilogon_static) ''https://idp.example/shibboleth''
   \<and> nonempty_set (allowed_users cilogon_static)
   \<and> ''bob'' \<notin> allowed_users cilogon_static
   \<and> cilogon_check_allowed cilogon_static ''bob'' (Some login_admin) = (Inr True, [])"
  by (simp add: login_admin_def claims_univ_other_def cilogon_static_def dict_get_def
      has_key_def nonempty_set_def cilogon_check_allowed_def)

subsection \<open>Validation of the table of identity providers\<close>

lemma validate_entries_None:
  "(fst (validate_entries urlparse idps) = None)
     = list_all (\<lambda>(k, e). schema_valid e \<and>
                   (case urlparse k of
                      Inl err \<Rightarrow> False
                    | Inr scheme \<Rightarrow> scheme \<in> {''https'', ''http'', ''urn''})) idps"
  by (induction urlparse idps rule: validate_entries.induct)
    (auto simp: accepted_entity_id_scheme_def split: sum.splits)

lemma validate_allowed_idps_fst:
  "fst (validate_allowed_idps urlparse idps) =
     (case fst (validate_entries urlparse idps) of None \<Rightarrow> Inr idps | Some e \<Rightarrow> Inl e)"
  by (cases "validate_entries urlparse idps")
    (auto simp: validate_allowed_idps_def split: option.splits)

lemma bare_domain_scheme: "CHR '':'' \<notin> set k \<Longrightarrow> py_urlparse k = Inr []"
  by (simp add: py_urlparse_def urlparse_scheme_def)

text \<open>
  C8, as amended. For every parser \<open>urlparse\<close>, \<open>_validate_allowed_idps\<close> accepts a proposed
  table exactly when every entry's value satisfies the schema and every key parses with a
  scheme among \<open>https\<close>, \<open>http\<close> and \<open>urn\<close>; an accepted table is returned as it was
  proposed. A table with a key that parses with any other scheme, the empty scheme of a bare
  domain name among them, is rejected as a whole by a raised error. By the scheme rule a
  key with no \<open>:\<close> parses with the empty scheme.
\<close>

theorem validate_allowed_idps_accepts:
  "((\<exists>t. fst (validate_allowed_idps urlparse idps) = Inr t)
      = list_all (\<lambda>(k, e). schema_valid e \<and>
                    (case urlparse k of
                       Inl err \<Rightarrow> False
                     | Inr scheme \<Rightarrow> scheme \<in> {''https'', ''http'', ''urn''})) idps)
   \<and> (fst (validate_allowed_idps urlparse idps) = Inr t \<longrightarrow> t = idps)
   \<and> ((k, e) \<in> set idps \<and> urlparse k = Inr scheme \<and> scheme \<notin> {''https'', ''http'', ''urn''}
        \<longrightarrow> (\<exists>err. fst (validate_allowed_idps urlparse idps) = Inl err))
   \<and> ((k, e) \<in> set idps \<and> urlparse k = Inr []
        \<longrightarrow> (\<exists>err. fst (validate_allowed_idps urlparse idps) = Inl err))
   \<and> (CHR '':'' \<notin> set k \<longrightarrow> py_urlparse k = Inr [])"
proof -
  let ?ok = "\<lambda>(k, e). schema_valid e \<and>
                    (case urlparse k of
                       Inl err \<Rightarrow> False
                     | Inr scheme \<Rightarrow> scheme \<in> {''https'', ''http'', ''urn''})"
  have none: "(fst (validate_entries urlparse idps) = None) = list_all ?ok idps"
    by (rule validate_entries_None)
  have iff: "(\<exists>t. fst (validate_allowed_idps urlparse idps) = Inr t) = list_all ?ok idps"
    using none by (auto simp: validate_allowed_idps_fst split: option.splits)
  have same: "t = idps" if "fst (validate_allowed_idps urlparse idps) = Inr t"
    using that by (auto simp: validate_allowed_idps_fst split: option.splits)
  have rejected: "\<exists>err. fst (validate_allowed_idps urlparse idps) = Inl err"
    if "(k, e) \<in> set idps" "urlparse k = Inr scheme" "scheme \<notin> {''https'', ''http'', ''urn''}"
    for scheme
  proof -
    have "\<not> ?ok (k, e)"
      using that(2,3) by simp
    then have "\<not> list_all ?ok idps"
      using that(1) unfolding list_all_iff by blast
    then have "fst (validate_entries urlparse idps) \<noteq> None"
      using none by simp
    then show ?thesis
      by (auto simp: validate_allowed_idps_fst)
  qed
  have bare: "\<exists>err. fst (validate_allowed_idps urlparse idps) = Inl err"
    if "(k, e) \<in> set idps" "urlparse k = Inr []"
    using rejected [OF that] by simp
  have rule: "py_urlparse k = Inr []" if "CHR '':'' \<notin> set k"
    using that by (rule bare_domain_scheme)
  from iff same rejected bare rule show ?thesis by blast
qed

theorem validate_allowed_idps_accepts_witness:
  "fst (validate_allowed_idps py_urlparse (allowed_idps cilogon_actions))
     = Inr (allowed_idps cilogon_actions)
   \<and> py_urlparse ''github.com'' = Inr []
   \<and> (\<exists>err. fst (validate_allowed_idps py_urlparse table_bare_domain) = Inl err)
   \<and> validate_allowed_idps py_urlparse table_bare_domain
       = (Inl ValueError, [LogErrorNotEntityId ''github.com''])"
proof -
  let ?bare = "\<lparr>username_derivation =
          Some \<lparr>ud_username_claim = Some ''username'', ud_action = None,
                ud_domain = None, ud_prefix = None\<rparr>,
        allowed_domains = None\<rparr>"
  have ok: "list_all (\<lambda>(k, e). schema_valid e \<and>
                    (case py_urlparse k of
                       Inl err \<Rightarrow> False
                     | Inr scheme \<Rightarrow> scheme \<in> {''https'', ''http'', ''urn''}))
              (allowed_idps cilogon_actions)"
    by (simp add: cilogon_actions_def schema_valid_def py_urlparse_def urlparse_scheme_def
        is_ascii_alpha_def is_scheme_char_def ascii_lower_def)
  have a: "fst (validate_allowed_idps py_urlparse (allowed_idps cilogon_actions))
             = Inr (allowed_idps cilogon_actions)"
    using validate_allowed_idps_accepts [of py_urlparse "allowed_idps cilogon_actions"] ok
    by blast
  have mem: "(''github.com'', ?bare) \<in> set table_bare_domain"
    by (simp add: table_bare_domain_def)
  have colon: "CHR '':'' \<notin> set ''github.com''" by simp
  have b: "py_urlparse ''github.com'' = Inr []"
    using validate_allowed_idps_accepts [of py_urlparse table_bare_domain _ "''github.com''"]
      colon by blast
  have c: "\<exists>err. fst (validate_allowed_idps py_urlparse table_bare_domain) = Inl err"
    using validate_allowed_idps_accepts
      [of py_urlparse table_bare_domain _ "''github.com''" ?bare] mem b
    by blast
  have d: "validate_allowed_idps py_urlparse table_bare_domain
             = (Inl ValueError, [LogErrorNotEntityId ''github.com''])"
    by (simp add: validate_allowed_idps_def table_bare_domain_def schema_valid_def
        py_urlparse_def urlparse_scheme_def is_ascii_alpha_def is_scheme_char_def
        ascii_lower_def accepted_entity_id_scheme_def)
  from a b c d show ?thesis by simp
qed

text \<open>
  The claim with the schemes of the keys as the only condition fails: the one key of this
  table parses with the scheme \<open>https\<close>, and the table is rejected because its entry asks
  for the action \<open>prefix\<close> and gives no \<open>prefix\<close>.
\<close>

theorem validate_allowed_idps_schema_counterexample:
  "list_all (\<lambda>(k, e). py_urlparse k = Inr ''https'') table_missing_prefix
   \<and> validate_allowed_idps py_urlparse table_missing_prefix = (Inl ValidationError, [])"
  by (simp add: validate_allowed_idps_def table_missing_prefix_def schema_valid_def
      py_urlparse_def urlparse_scheme_def is_ascii_alpha_def is_scheme_char_def ascii_lower_def)

subsection \<open>Pagination\<close>

lemma find_next_None: "next_link links = None \<Longrightarrow> find_next links = Inr None"
  unfolding next_link_def by (induction links) (auto split: if_splits)

lemma find_next_Some:
  "next_link links = Some l \<Longrightarrow> dict_get l ''url'' = Some u \<Longrightarrow> find_next links = Inr (Some u)"
  unfolding next_link_def
  by (induction links) (auto simp: getitem_def dict_get_def split: if_splits)

lemma paginated_loop_chain:
  "page_chain httpfetch url token ttype pages \<Longrightarrow>
     \<exists>tr. paginated_loop httpfetch url token ttype content trace
            = Some (Inr (content @ concat pages), trace @ tr)
         \<and> map Get (requests_of tr) = tr \<and> length tr = length pages"
proof (induction pages arbitrary: url content trace)
  case Nil
  then show ?case by simp
next
  case (Cons page pages)
  let ?req = "\<lparr>req_url = url, req_access_token = token, req_token_type = ttype\<rparr>"
  from Cons.prems obtain resp where
    resp: "httpfetch ?req = Inr resp" "body resp = Some (JArr page)"
    and rest: "case pages of
             [] \<Rightarrow> (case link resp of None \<Rightarrow> True | Some links \<Rightarrow> next_link links = None)
           | _ # _ \<Rightarrow>
               (case link resp of
                  None \<Rightarrow> False
                | Some links \<Rightarrow>
                    (case next_link links of
                       None \<Rightarrow> False
                     | Some l \<Rightarrow>
                         (case dict_get l ''url'' of
                            None \<Rightarrow> False
                          | Some u \<Rightarrow> page_chain httpfetch u token ttype pages)))"
    by (auto split: sum.splits)
  show ?case
  proof (cases pages)
    case Nil
    with rest have last: "link resp = None \<or> (\<exists>links. link resp = Some links \<and> next_link links = None)"
      by (auto split: option.splits)
    have "paginated_loop httpfetch url token ttype content trace
            = Some (Inr (content @ page), trace @ [Get ?req])"
      using resp last
      by (subst paginated_loop.simps) (auto simp: extend_def Let_def find_next_None)
    with Nil show ?thesis by simp
  next
    case (Cons q qs)
    with rest obtain links l u where
      nxt: "link resp = Some links" "next_link links = Some l" "dict_get l ''url'' = Some u"
      and chain: "page_chain httpfetch u token ttype pages"
      by (auto split: option.splits)
    have step: "paginated_loop httpfetch url token ttype content trace
            = paginated_loop httpfetch u token ttype (content @ page) (trace @ [Get ?req])"
      using resp nxt find_next_Some [OF nxt(2,3)]
      by (subst paginated_loop.simps) (simp add: extend_def Let_def)
    from Cons.IH [OF chain, of "content @ page" "trace @ [Get ?req]"] obtain tr where
      tr: "paginated_loop httpfetch u token ttype (content @ page) (trace @ [Get ?req])
            = Some (Inr ((content @ page) @ concat pages), (trace @ [Get ?req]) @ tr)"
        "map Get (requests_of tr) = tr" "length tr = length pages"
      by blast
    have "paginated_loop httpfetch url token ttype content trace
            = Some (Inr (content @ concat (page # pages)), trace @ (Get ?req # tr))
         \<and> map Get (requests_of (Get ?req # tr)) = Get ?req # tr
         \<and> length (Get ?req # tr) = length (page # pages)"
      using step tr by simp
    then show ?thesis by (intro exI [of _ "Get ?req # tr"])
  qed
qed

text \<open>
  C5. For every chain of \<open>N\<close> pages (\<open>page_chain\<close>), \<open>_paginated_fetch\<close> returns: its result
  is the concatenation of the page lists in page order, whose length is the sum of the page
  sizes; its trace consists of GET requests only, and there are exactly \<open>N\<close> of them. The
  last page of a chain is one with no \<open>Link\<close> header or with no link tagged \<open>next\<close>, so the
  loop ends at either.
\<close>

theorem paginated_fetch_chain:
  assumes "page_chain httpfetch url token ttype pages"
  shows "\<exists>trace. paginated_fetch httpfetch url token ttype = Some (Inr (concat pages), trace)
           \<and> length (concat pages) = sum_list (map length pages)
           \<and> map Get (requests_of trace) = trace
           \<and> length (requests_of trace) = length pages"
proof -
  from paginated_loop_chain [OF assms, of "[]" "[]"] obtain tr where
    tr: "paginated_loop httpfetch url token ttype [] [] = Some (Inr (concat pages), tr)"
      "map Get (requests_of tr) = tr" "length tr = length pages"
    by auto
  from tr(2,3) have "length (requests_of tr) = length pages"
    by (metis length_map)
  with tr show ?thesis
    by (auto simp: paginated_fetch_def length_concat)
qed

theorem paginated_fetch_chain_witness:
  "page_chain two_pages ''https://api.github.com/user/teams?per_page=100'' ''t0k'' ''bearer''
     [[JStr ''team-a'', JStr ''team-b''], [JStr ''team-c'']]
   \<and> (\<exists>trace. paginated_fetch two_pages ''https://api.github.com/user/teams?per_page=100''
                  ''t0k'' ''bearer''
                = Some (Inr [JStr ''team-a'', JStr ''team-b'', JStr ''team-c''], trace)
              \<and> length (requests_of trace) = 2)"
proof -
  have chain: "page_chain two_pages ''https://api.github.com/user/teams?per_page=100''
      ''t0k'' ''bearer'' [[JStr ''team-a'', JStr ''team-b''], [JStr ''team-c'']]"
    by (simp add: two_pages_def next_link_def dict_get_def)
  from paginated_fetch_chain [OF chain] chain show ?thesis by auto
qed

subsection \<open>Faults that leave the authorization decision\<close>

text \<open>
  C6. The decision outcomes are Allow (\<open>Inr True\<close>), Deny (\<open>Inr False\<close> or \<open>HTTPError 403\<close>)
  and the internal error (\<open>HTTPError 500\<close>). \<open>check_allowed\<close> leaves them at both inputs the
  claim names: with \<open>allowed_domains\<close> configured and the resolved username \<open>jdoe\<close>, which has
  no \<open>@\<close>, it raises \<open>IndexError\<close>; with \<open>allowed_idps\<close> configured and claims that have no
  \<open>idp\<close> key, it raises \<open>KeyError\<close>.
\<close>

theorem check_allowed_unhandled_faults:
  "cilogon_check_allowed cilogon_domains ''jdoe'' (Some login_no_at) = (Inl IndexError, [])
   \<and> cilogon_check_allowed cilogon_domains ''x'' (Some login_no_idp) = (Inl (KeyError ''idp''), [])"
  by (simp add: cilogon_check_allowed_def cilogon_domains_def login_no_at_def login_no_idp_def
      claims_no_at_def claims_no_idp_def getitem_def nonempty_set_def nonempty_def
      get_final_username_claim_list_def get_username_from_claim_list_def dict_get_def
      truthy_def index_def split1_def)

subsection \<open>Organization membership\<close>

text \<open>
  What the membership check does for an organization entry: it returns \<open>True\<close> exactly on
  status 204; on any other status it returns \<open>False\<close> when the body is not JSON or is a JSON
  object, and raises \<open>AttributeError\<close> when the body is any other JSON value. It never raises
  an \<open>HTTPError\<close>.
\<close>

lemma membership_check_org:
  "CHR '':'' \<notin> set org \<Longrightarrow>
   fst (check_membership_allowed_organizations self httpfetch org username token ttype) =
     (let resp = httpfetch \<lparr>req_url = github_api self @ ''/orgs/'' @ org @ ''/members/'' @ username,
                             req_access_token = token, req_token_type = ttype\<rparr>
      in if code resp = 204 then Inr True
         else (case body resp of
                 None \<Rightarrow> Inr False
               | Some (JObj members) \<Rightarrow> Inr False
               | Some _ \<Rightarrow> Inl AttributeError))"
  by (simp add: check_membership_allowed_organizations_def Let_def
      split: option.splits json.splits)

lemma membership_check_no_http_error:
  "fst (check_membership_allowed_organizations self httpfetch org_team username token ttype)
     \<noteq> Inl (HTTPError status message)"
  by (auto simp: check_membership_allowed_organizations_def Let_def
      split: option.splits json.splits list.splits if_splits)

text \<open>
  C3. The membership check does not return \<open>False\<close> for every status other than 204: here
  the server answers 502 with the JSON list \<open>[]\<close> as body, and the check raises
  \<open>AttributeError\<close> after its request instead of returning \<open>False\<close>.
\<close>

theorem membership_check_raises:
  "code (flaky_api \<lparr>req_url = ''https://api.github.com/orgs/org-a/members/alice'',
                     req_access_token = ''t0k'', req_token_type = ''bearer''\<rparr>) = 502
   \<and> check_membership_allowed_organizations hub flaky_api ''org-a'' ''alice'' ''t0k'' ''bearer''
       = (Inl AttributeError,
          [LogDebugChecking ''alice'' ''org-a'',
           Get \<lparr>req_url = ''https://api.github.com/orgs/org-a/members/alice'',
                req_access_token = ''t0k'', req_token_type = ''bearer''\<rparr>])"
  by (simp add: check_membership_allowed_organizations_def hub_def flaky_api_def)

text \<open>
  When every membership check that runs returns a boolean, \<open>check_allowed\<close> stops at the
  first entry that is a member: the trace holds the events of the entries up to that one and
  nothing of the entries after it. When all checks return \<open>False\<close> the decision is \<open>False\<close>.
\<close>

lemma org_loop_all_denied:
  "list_all (\<lambda>org_team. fst (check_membership_allowed_organizations self httpfetch org_team
                               username token ttype) = Inr False) orgs
   \<Longrightarrow> org_loop self httpfetch username token ttype orgs =
         (Inr False,
          concat (map (\<lambda>org_team. snd (check_membership_allowed_organizations self httpfetch
                                          org_team username token ttype)) orgs))"
proof (induction orgs)
  case Nil
  then show ?case by simp
next
  case (Cons org_team orgs)
  then show ?case
    by (cases "check_membership_allowed_organizations self httpfetch org_team username token ttype")
      auto
qed

lemma org_loop_short_circuit:
  assumes "list_all (\<lambda>org_team. fst (check_membership_allowed_organizations self httpfetch
                                        org_team username token ttype) = Inr False) before"
    and "fst (check_membership_allowed_organizations self httpfetch hit username token ttype)
           = Inr True"
  shows "org_loop self httpfetch username token ttype (before @ hit # rest) =
           (Inr True,
            concat (map (\<lambda>org_team. snd (check_membership_allowed_organizations self httpfetch
                                            org_team username token ttype)) (before @ [hit])))"
  using assms(1)
proof (induction before)
  case Nil
  show ?case
    using assms(2)
    by (cases "check_membership_allowed_organizations self httpfetch hit username token ttype")
      auto
next
  case (Cons org_team before)
  then show ?case
    by (cases "check_membership_allowed_organizations self httpfetch org_team username token ttype")
      auto
qed

lemma github_check_allowed_first_member:
  assumes "allowed_organizations self = before @ hit # rest"
    and "list_all (\<lambda>org_team. fst (check_membership_allowed_organizations self httpfetch
                                        org_team username (access_token auth_model)
                                        (token_type auth_model)) = Inr False) before"
    and "fst (check_membership_allowed_organizations self httpfetch hit username
                (access_token auth_model) (token_type auth_model)) = Inr True"
  shows "github_check_allowed self httpfetch (Inr False) username auth_model =
           (Inr True,
            concat (map (\<lambda>org_team. snd (check_membership_allowed_organizations self httpfetch
                                            org_team username (access_token auth_model)
                                            (token_type auth_model))) (before @ [hit])))"
  using org_loop_short_circuit [OF assms(2,3), of rest] assms(1)
  by (simp add: github_check_allowed_def)

lemma github_check_allowed_no_member:
  assumes "allowed_organizations self \<noteq> []"
    and "list_all (\<lambda>org_team. fst (check_membership_allowed_organizations self httpfetch
                                        org_team username (access_token auth_model)
                                        (token_type auth_model)) = Inr False)
           (allowed_organizations self)"
  shows "fst (github_check_allowed self httpfetch (Inr False) username auth_model) = Inr False"
  using org_loop_all_denied [OF assms(2)] assms(1)
  by (simp add: github_check_allowed_def)

text \<open>
  C4. With the base decision \<open>False\<close> and the organizations \<open>org-a\<close> and \<open>org-b:team-x\<close>, the
  user is a member of \<open>org-b:team-x\<close>, yet the decision is not Allow: the check of \<open>org-a\<close>
  raises \<open>AttributeError\<close> and the loop never reaches \<open>org-b:team-x\<close>. With \<open>org-a\<close> alone no
  membership check succeeds, and the decision is \<open>AttributeError\<close>, not Deny.
\<close>

theorem check_allowed_aborts_on_raise:
  "fst (check_membership_allowed_organizations hub flaky_api ''org-b:team-x'' ''alice''
          ''t0k'' ''bearer'') = Inr True
   \<and> fst (github_check_allowed hub flaky_api (Inr False) ''alice'' token_alice)
       = Inl AttributeError
   \<and> fst (github_check_allowed hub_one flaky_api (Inr False) ''alice'' token_alice)
       = Inl AttributeError"
  by (simp add: github_check_allowed_def check_membership_allowed_organizations_def hub_def
      hub_one_def flaky_api_def token_alice_def split_all_def)

end
